theory Spec2Isabelle
  imports Complex_Main "HOL-Library.Word" "HOL-Library.Log_Nat"
begin

unbundle bit_operations_syntax

section \<open>JavaScript numbers\<close>

text \<open>
  The simulator of \<^verbatim>\<open>EntrepreneurialWellbeingSimulator.jsx\<close> computes with JavaScript
  numbers. A number is modelled as a real or one of the three special values of
  IEEE 754 that the program can produce: \<^verbatim>\<open>Infinity\<close>, \<^verbatim>\<open>-Infinity\<close> and \<^verbatim>\<open>NaN\<close>
  (\<^verbatim>\<open>Math.log(0)\<close> is \<^verbatim>\<open>-Infinity\<close>, \<^verbatim>\<open>Infinity * 0\<close> and \<^verbatim>\<open>0 / 0\<close> are \<^verbatim>\<open>NaN\<close>).
  Arithmetic on the finite values is the arithmetic of the reals: rounding to 53 bits
  is modelled only where the program computes with integers (the generator's seed),
  and neither the sign of zero nor overflow of finite values is tracked. What depends on
  the rounding or the overflow of finite values (whether \<^verbatim>\<open>1 + Math.exp(x)\<close> is exactly
  1, whether a product is \<^verbatim>\<open>Infinity\<close>) is therefore outside this model, and nothing
  below is stated about it.
\<close>

datatype jsnum = Num real | PInf | NInf | NaN

fun jneg :: "jsnum \<Rightarrow> jsnum" where
  "jneg (Num x) = Num (- x)"
| "jneg PInf = NInf"
| "jneg NInf = PInf"
| "jneg NaN = NaN"

fun jadd :: "jsnum \<Rightarrow> jsnum \<Rightarrow> jsnum" where
  "jadd (Num x) (Num y) = Num (x + y)"
| "jadd NaN b = NaN"
| "jadd a NaN = NaN"
| "jadd PInf NInf = NaN"
| "jadd NInf PInf = NaN"
| "jadd PInf b = PInf"
| "jadd NInf b = NInf"
| "jadd (Num x) b = b"

fun jmul :: "jsnum \<Rightarrow> jsnum \<Rightarrow> jsnum" where
  "jmul (Num x) (Num y) = Num (x * y)"
| "jmul NaN b = NaN"
| "jmul a NaN = NaN"
| "jmul (Num x) PInf = (if x = 0 then NaN else if 0 < x then PInf else NInf)"
| "jmul (Num x) NInf = (if x = 0 then NaN else if 0 < x then NInf else PInf)"
| "jmul PInf (Num y) = (if y = 0 then NaN else if 0 < y then PInf else NInf)"
| "jmul NInf (Num y) = (if y = 0 then NaN else if 0 < y then NInf else PInf)"
| "jmul PInf PInf = PInf"
| "jmul PInf NInf = NInf"
| "jmul NInf PInf = NInf"
| "jmul NInf NInf = PInf"

text \<open>
  Division by a zero: \<^verbatim>\<open>0 / 0\<close> is \<^verbatim>\<open>NaN\<close>. For a non-zero numerator the sign of the
  result depends on the sign of the zero, which this model does not track (a zero is
  taken as \<^verbatim>\<open>+0\<close>); no division of the simulator has a non-zero numerator over zero.
\<close>

fun jdiv :: "jsnum \<Rightarrow> jsnum \<Rightarrow> jsnum" where
  "jdiv (Num x) (Num y) =
     (if y = 0 then (if x = 0 then NaN else if 0 < x then PInf else NInf)
      else Num (x / y))"
| "jdiv NaN b = NaN"
| "jdiv a NaN = NaN"
| "jdiv (Num x) b = Num 0"
| "jdiv PInf (Num y) = (if 0 \<le> y then PInf else NInf)"
| "jdiv NInf (Num y) = (if 0 \<le> y then NInf else PInf)"
| "jdiv a b = NaN"

instantiation jsnum :: "{plus, minus, uminus, times, inverse, ord}"
begin

definition plus_jsnum :: "jsnum \<Rightarrow> jsnum \<Rightarrow> jsnum" where
  "a + b = jadd a b"

definition uminus_jsnum :: "jsnum \<Rightarrow> jsnum" where
  "- a = jneg a"

definition minus_jsnum :: "jsnum \<Rightarrow> jsnum \<Rightarrow> jsnum" where
  "a - b = jadd a (jneg b)"

definition times_jsnum :: "jsnum \<Rightarrow> jsnum \<Rightarrow> jsnum" where
  "a * b = jmul a b"

definition divide_jsnum :: "jsnum \<Rightarrow> jsnum \<Rightarrow> jsnum" where
  "divide_jsnum a b = jdiv a b"

definition inverse_jsnum :: "jsnum \<Rightarrow> jsnum" where
  "inverse_jsnum a = jdiv (Num 1) a"

text \<open>The comparisons \<^verbatim>\<open><\<close> and \<^verbatim>\<open><=\<close>: false as soon as one side is \<^verbatim>\<open>NaN\<close>.\<close>

fun less_jsnum :: "jsnum \<Rightarrow> jsnum \<Rightarrow> bool" where
  "less_jsnum (Num x) (Num y) = (x < y)"
| "less_jsnum NaN b = False"
| "less_jsnum a NaN = False"
| "less_jsnum a NInf = False"
| "less_jsnum PInf b = False"
| "less_jsnum a b = True"

fun less_eq_jsnum :: "jsnum \<Rightarrow> jsnum \<Rightarrow> bool" where
  "less_eq_jsnum (Num x) (Num y) = (x \<le> y)"
| "less_eq_jsnum NaN b = False"
| "less_eq_jsnum a NaN = False"
| "less_eq_jsnum NInf b = True"
| "less_eq_jsnum a PInf = True"
| "less_eq_jsnum a b = False"

instance ..

end

text \<open>Strict equality \<^verbatim>\<open>===\<close> of two numbers: \<^verbatim>\<open>NaN\<close> is equal to nothing.\<close>

definition strict_eq :: "jsnum \<Rightarrow> jsnum \<Rightarrow> bool" where
  "strict_eq a b = (a = b \<and> a \<noteq> NaN)"

text \<open>\<^verbatim>\<open>Math.max\<close> and \<^verbatim>\<open>Math.min\<close> of two numbers: \<^verbatim>\<open>NaN\<close> if one of them is.\<close>

definition Math_max :: "jsnum \<Rightarrow> jsnum \<Rightarrow> jsnum" where
  "Math_max a b = (if a = NaN \<or> b = NaN then NaN else if a \<le> b then b else a)"

definition Math_min :: "jsnum \<Rightarrow> jsnum \<Rightarrow> jsnum" where
  "Math_min a b = (if a = NaN \<or> b = NaN then NaN else if a \<le> b then a else b)"

fun Math_exp :: "jsnum \<Rightarrow> jsnum" where
  "Math_exp (Num x) = Num (exp x)"
| "Math_exp PInf = PInf"
| "Math_exp NInf = Num 0"
| "Math_exp NaN = NaN"

fun Math_log :: "jsnum \<Rightarrow> jsnum" where
  "Math_log (Num x) = (if x < 0 then NaN else if x = 0 then NInf else Num (ln x))"
| "Math_log PInf = PInf"
| "Math_log NInf = NaN"
| "Math_log NaN = NaN"

fun Math_sqrt :: "jsnum \<Rightarrow> jsnum" where
  "Math_sqrt (Num x) = (if x < 0 then NaN else Num (sqrt x))"
| "Math_sqrt PInf = PInf"
| "Math_sqrt NInf = NaN"
| "Math_sqrt NaN = NaN"

fun Math_cos :: "jsnum \<Rightarrow> jsnum" where
  "Math_cos (Num x) = Num (cos x)"
| "Math_cos a = NaN"

text \<open>
  \<^verbatim>\<open>+x.toFixed(3)\<close>: the decimal with three digits nearest to \<open>x\<close> (of two equally
  near ones the one of larger magnitude), read back as a number. The special values
  print as \<^verbatim>\<open>"Infinity"\<close>, \<^verbatim>\<open>"-Infinity"\<close> and \<^verbatim>\<open>"NaN"\<close> and read back as themselves.
  (From \<open>10 ^ 21\<close> on \<^verbatim>\<open>toFixed\<close> prints the number itself; a double that large is an
  integer, which the rounding below leaves as it is.)
\<close>

fun toFixed3 :: "jsnum \<Rightarrow> jsnum" where
  "toFixed3 (Num x) =
     (if x < 0 then Num (- (of_int \<lfloor>- x * 1000 + 1 / 2\<rfloor> / 1000))
      else Num (of_int \<lfloor>x * 1000 + 1 / 2\<rfloor> / 1000))"
| "toFixed3 a = a"

section \<open>The seeded generator\<close>

text \<open>
  The seed of \<^verbatim>\<open>SeededRandom\<close> is an integer, held in a JavaScript number.
  \<^verbatim>\<open>this.seed * 1103515245 + 12345\<close> is computed in double precision: the product and
  the sum are each rounded to the nearest number with a 53-bit significand, ties to
  even. \<open>round_to_double\<close> is that rounding on the integers (of magnitude below
  \<open>2 ^ 1024\<close>, where doubles end).
\<close>

definition round_to_double :: "int \<Rightarrow> int" where
  "round_to_double n =
     (let m = \<bar>n\<bar>;
          q = 2 ^ (floorlog 2 (nat m) - 53);
          d = m div q;
          r = m mod q
      in sgn n * (q * (if q < 2 * r \<or> (2 * r = q \<and> odd d) then d + 1 else d)))"

text \<open>
  \<^verbatim>\<open>x & 0x7fffffff\<close> converts the integer \<open>x\<close> to 32 bits (modulo \<open>2 ^ 32\<close>) and masks
  the sign bit.
\<close>

definition and_0x7fffffff :: "int \<Rightarrow> int" where
  "and_0x7fffffff x = uint ((word_of_int x :: 32 word) AND 0x7fffffff)"

text \<open>
  \<^verbatim>\<open>next()\<close>: the new seed and the value returned. The state of a generator is its
  seed, passed in and returned.
\<close>

definition next_seed :: "int \<Rightarrow> int" where
  "next_seed seed =
     and_0x7fffffff (round_to_double (round_to_double (seed * 1103515245) + 12345))"

definition SeededRandom_next :: "int \<Rightarrow> jsnum \<times> int" where
  "SeededRandom_next seed =
     (let seed' = next_seed seed in (Num (of_int seed' / 0x7fffffff), seed'))"

definition nextNormal :: "jsnum \<Rightarrow> jsnum \<Rightarrow> int \<Rightarrow> jsnum \<times> int" where
  "nextNormal mean std seed =
     (let (u1, seed1) = SeededRandom_next seed;
          (u2, seed2) = SeededRandom_next seed1;
          z = Math_sqrt (Num (- 2) * Math_log u1) * Math_cos (Num (2 * pi) * u2)
      in (mean + z * std, seed2))"

definition nextTruncatedNormal ::
    "jsnum \<Rightarrow> jsnum \<Rightarrow> jsnum \<Rightarrow> jsnum \<Rightarrow> int \<Rightarrow> jsnum \<times> int" where
  "nextTruncatedNormal mean std lo hi seed =
     (let (v, seed') = nextNormal mean std seed
      in (Math_max lo (Math_min hi v), seed'))"

definition nextPoisson :: "jsnum \<Rightarrow> jsnum \<Rightarrow> jsnum \<Rightarrow> int \<Rightarrow> jsnum \<times> int" where
  "nextPoisson mean lo hi seed =
     (let (u, seed') = SeededRandom_next seed;
          v = (if u < mean then Num 1 else Num 0)
      in (Math_max lo (Math_min hi v), seed'))"

section \<open>The simulation engine\<close>

text \<open>
  The parameters of a run. \<open>ambition\<close>, \<open>skill\<close>, \<open>selfRegulation\<close> and \<open>dynamism\<close> and
  the ten coefficients are finite numbers; a coefficient that is absent
  (\<^verbatim>\<open>coefficients.var1 ?? 1\<close>) is \<open>None\<close>.
\<close>

record coefficients =
  var1 :: "real option"
  var2 :: "real option"
  var3 :: "real option"
  var4 :: "real option"
  var5 :: "real option"
  var6 :: "real option"
  var7 :: "real option"
  var8 :: "real option"
  var9 :: "real option"
  var10 :: "real option"

record params =
  ambition :: real
  skill :: real
  selfRegulation :: real
  dynamism :: real
  coefficients :: coefficients

definition or_1 :: "real option \<Rightarrow> jsnum" where
  "or_1 c = (case c of None \<Rightarrow> Num 1 | Some v \<Rightarrow> Num v)"

definition Var1 :: "params \<Rightarrow> jsnum" where "Var1 p = or_1 (var1 (coefficients p))"
definition Var2 :: "params \<Rightarrow> jsnum" where "Var2 p = or_1 (var2 (coefficients p))"
definition Var3 :: "params \<Rightarrow> jsnum" where "Var3 p = or_1 (var3 (coefficients p))"
definition Var4 :: "params \<Rightarrow> jsnum" where "Var4 p = or_1 (var4 (coefficients p))"
definition Var5 :: "params \<Rightarrow> jsnum" where "Var5 p = or_1 (var5 (coefficients p))"
definition Var6 :: "params \<Rightarrow> jsnum" where "Var6 p = or_1 (var6 (coefficients p))"
definition Var7 :: "params \<Rightarrow> jsnum" where "Var7 p = or_1 (var7 (coefficients p))"
definition Var8 :: "params \<Rightarrow> jsnum" where "Var8 p = or_1 (var8 (coefficients p))"
definition Var9 :: "params \<Rightarrow> jsnum" where "Var9 p = or_1 (var9 (coefficients p))"
definition Var10 :: "params \<Rightarrow> jsnum" where "Var10 p = or_1 (var10 (coefficients p))"

text \<open>
  What the loop of \<^verbatim>\<open>runSimulation\<close> carries from one period to the next: the seeds of
  the five generators and the four stocks.
\<close>

record sim_state =
  rng0_advance :: int
  rng1_setback :: int
  rng1_setbackPoisson :: int
  rng2_challenge :: int
  rng3_hindrance :: int
  motivation :: jsnum
  strain :: jsnum
  cumulativeEffort :: jsnum
  progress :: jsnum

text \<open>The constants that the loop body computes in one period.\<close>

record period_values =
  progressSensitivity :: jsnum
  relativeProgress :: jsnum
  resources :: jsnum
  challengeStressors :: jsnum
  hindranceStressors :: jsnum
  recovery :: jsnum
  motivationIncrease :: jsnum
  motivationDecrease :: jsnum
  strainIncrease :: jsnum
  strainDecrease :: jsnum
  effort :: jsnum
  advanceRandom :: jsnum
  advance :: jsnum
  setbackPoisson :: jsnum
  setbackRandom :: jsnum
  setback :: jsnum
  wellbeing :: jsnum

text \<open>A recorded point of the trajectory (the fields of the pushed object).\<close>

record TrajectoryPoint =
  period :: int
  pt_motivation :: jsnum
  pt_strain :: jsnum
  pt_effort :: jsnum
  pt_performance :: jsnum
  pt_wellbeing :: jsnum
  pt_resources :: jsnum
  pt_recovery :: jsnum
  pt_cumulativeEffort :: jsnum
  pt_challengeStressors :: jsnum
  pt_hindranceStressors :: jsnum
  pt_advance :: jsnum
  pt_setback :: jsnum

text \<open>One pass through the loop body, up to the computation of \<^verbatim>\<open>wellbeing\<close>.\<close>

definition period_step ::
    "params \<Rightarrow> int \<Rightarrow> int \<Rightarrow> sim_state \<Rightarrow> period_values \<times> sim_state" where
  "period_step p finalTime time st =
     (let progressSensitivity = Num (of_int time) / Num (of_int finalTime);
          relativeProgress =
            (if strict_eq (cumulativeEffort st) (Num 0) then Num 0
             else progress st / cumulativeEffort st);
          resources = Num (ambition p) * (Num 1 - progressSensitivity)
                        + relativeProgress * progressSensitivity;
          (challengeStressors, rng2) =
            (if strict_eq (Num (ambition p)) (Num 0) then (Num 0, rng2_challenge st)
             else nextTruncatedNormal (Num 0) (Num (ambition p)) (Num 0) (Num (ambition p))
                    (rng2_challenge st));
          (hindranceStressors, rng3) =
            (if strict_eq (Num (ambition p)) (Num 0) then (Num 0, rng3_hindrance st)
             else nextTruncatedNormal (Num 0) (Num (ambition p)) (Num 0) (Num (ambition p))
                    (rng3_hindrance st));
          recovery =
            (if strict_eq (Num (ambition p)) (Num 0) then Num 1
             else Num 1 - (Num 1 - Num (selfRegulation p))
                            * (Var2 p * challengeStressors + Var3 p * hindranceStressors)
                            / (Num 2 * Num (ambition p)));
          motivationIncrease = Math_max challengeStressors resources * recovery * Var1 p;
          motivationDecrease =
            Math_min (motivation st)
              ((Num 1 - Num (selfRegulation p)) * hindranceStressors * Var7 p);
          strainIncrease =
            (if strict_eq (Num (ambition p)) (Num 0) then Num 0
             else (Num 1 - Num (selfRegulation p))
                    * (Var4 p * challengeStressors + Var5 p * hindranceStressors)
                    / (Num 2 * Num (ambition p)));
          strainDecrease = Math_min (strain st) (resources * recovery * Var6 p);
          effort =
            (if strict_eq (motivation st) (Num 0) then Num 0
             else Var8 p * (Num 1 / (Num 1 + Math_exp (strain st - motivation st))));
          (advanceRandom, rng0) =
            nextTruncatedNormal (Num 0) (Num (ambition p)) (Num 0) (Num (ambition p))
              (rng0_advance st);
          advance =
            (if strict_eq (Num (skill p)) (Num 0) then Num 0
             else effort * Num (skill p) * advanceRandom);
          (setbackPoisson, rng1p) =
            nextPoisson (Num (dynamism p)) (Num 0) (Num 1) (rng1_setbackPoisson st);
          (setbackRandom, rng1) =
            nextTruncatedNormal (Num 0) (Num (ambition p)) (Num 0) (Num (ambition p))
              (rng1_setback st);
          setback = setbackPoisson * Math_min (progress st) setbackRandom;
          motivation1 = motivation st + motivationIncrease - motivationDecrease;
          strain1 = strain st + strainIncrease - strainDecrease;
          cumulativeEffort1 = cumulativeEffort st + effort;
          progress1 = progress st + advance - setback;
          motivation2 = Math_max (Num 0) motivation1;
          strain2 = Math_max (Num 0) strain1;
          progress2 = Math_max (Num 0) progress1;
          wellbeing = Var9 p * motivation2 - Var10 p * strain2
      in (\<lparr>progressSensitivity = progressSensitivity,
           relativeProgress = relativeProgress,
           resources = resources,
           challengeStressors = challengeStressors,
           hindranceStressors = hindranceStressors,
           recovery = recovery,
           motivationIncrease = motivationIncrease,
           motivationDecrease = motivationDecrease,
           strainIncrease = strainIncrease,
           strainDecrease = strainDecrease,
           effort = effort,
           advanceRandom = advanceRandom,
           advance = advance,
           setbackPoisson = setbackPoisson,
           setbackRandom = setbackRandom,
           setback = setback,
           wellbeing = wellbeing\<rparr>,
          \<lparr>rng0_advance = rng0,
           rng1_setback = rng1,
           rng1_setbackPoisson = rng1p,
           rng2_challenge = rng2,
           rng3_hindrance = rng3,
           motivation = motivation2,
           strain = strain2,
           cumulativeEffort = cumulativeEffort1,
           progress = progress2\<rparr>))"

text \<open>The object pushed onto the trajectory, from the values of the period and the updated stocks.\<close>

definition record_point :: "int \<Rightarrow> period_values \<Rightarrow> sim_state \<Rightarrow> TrajectoryPoint" where
  "record_point time v st =
     \<lparr>period = time,
      pt_motivation = toFixed3 (motivation st),
      pt_strain = toFixed3 (strain st),
      pt_effort = toFixed3 (effort v),
      pt_performance = toFixed3 (progress st),
      pt_wellbeing = toFixed3 (wellbeing v),
      pt_resources = toFixed3 (resources v),
      pt_recovery = toFixed3 (recovery v),
      pt_cumulativeEffort = toFixed3 (cumulativeEffort st),
      pt_challengeStressors = toFixed3 (challengeStressors v),
      pt_hindranceStressors = toFixed3 (hindranceStressors v),
      pt_advance = toFixed3 (advance v),
      pt_setback = toFixed3 (setback v)\<rparr>"

text \<open>The loop \<^verbatim>\<open>for (let time = 0; time <= finalTime; time++)\<close>, from \<open>time\<close> on.\<close>

function sim_loop ::
    "params \<Rightarrow> int \<Rightarrow> int \<Rightarrow> sim_state \<Rightarrow> TrajectoryPoint list \<Rightarrow> TrajectoryPoint list" where
  "sim_loop p finalTime time st trajectory =
     (if time \<le> finalTime then
        (let (v, st') = period_step p finalTime time st
         in sim_loop p finalTime (time + 1) st'
              (if time mod 5 = 0 then trajectory @ [record_point time v st'] else trajectory))
      else trajectory)"
  by pat_completeness auto
termination
  by (relation "measure (\<lambda>(p, finalTime, time, st, trajectory). nat (finalTime + 1 - time))") auto

text \<open>
  \<^verbatim>\<open>seed || Math.floor(Math.random() * 1000000)\<close>: \<open>seed\<close> is an integer or
  \<^verbatim>\<open>null\<close> (\<open>None\<close>), and \<open>random\<close> is the value that \<^verbatim>\<open>Math.random()\<close> returns
  when it is called. \<^verbatim>\<open>||\<close> takes its right operand when the left one is falsy,
  which \<^verbatim>\<open>null\<close> and \<^verbatim>\<open>0\<close> are. The product is the product of the reals (the code
  rounds it to a double before it takes the floor).
\<close>

definition baseSeed :: "int option \<Rightarrow> real \<Rightarrow> int" where
  "baseSeed seed random =
     (case seed of
        None \<Rightarrow> \<lfloor>random * 1000000\<rfloor>
      | Some s \<Rightarrow> if s = 0 then \<lfloor>random * 1000000\<rfloor> else s)"

definition initial_state :: "int \<Rightarrow> sim_state" where
  "initial_state base =
     \<lparr>rng0_advance = base,
      rng1_setback = round_to_double (base + 1000),
      rng1_setbackPoisson = round_to_double (base + 1500),
      rng2_challenge = round_to_double (base + 2000),
      rng3_hindrance = round_to_double (base + 3000),
      motivation = Num 0,
      strain = Num 0,
      cumulativeEffort = Num 0,
      progress = Num 0\<rparr>"

definition runSimulation :: "params \<Rightarrow> int \<Rightarrow> int option \<Rightarrow> real \<Rightarrow> TrajectoryPoint list" where
  "runSimulation p finalTime seed random =
     sim_loop p finalTime 0 (initial_state (baseSeed seed random)) []"

text \<open>
  \<^verbatim>\<open>runMultipleSimulations\<close>. Every run calls \<^verbatim>\<open>runSimulation(params, finalTime)\<close> with
  no seed; \<open>random i\<close> is the value of \<^verbatim>\<open>Math.random()\<close> in run \<open>i\<close>. Reading a
  property of \<^verbatim>\<open>trajectory[trajectory.length - 1]\<close> throws a \<^verbatim>\<open>TypeError\<close> when the
  trajectory is empty.
\<close>

datatype js_error = TypeError

record RunSummary =
  run :: int
  performance :: jsnum
  run_wellbeing :: jsnum
  finalEffort :: jsnum

function runs_loop ::
    "params \<Rightarrow> int \<Rightarrow> int \<Rightarrow> (int \<Rightarrow> real) \<Rightarrow> int \<Rightarrow> RunSummary list
       \<Rightarrow> js_error + RunSummary list" where
  "runs_loop p numRuns finalTime random i results =
     (if i < numRuns then
        (let trajectory = runSimulation p finalTime None (random i)
         in if trajectory = [] then Inl TypeError
            else
              (let final = last trajectory
               in runs_loop p numRuns finalTime random (i + 1)
                    (results @ [\<lparr>run = i,
                                 performance = pt_performance final,
                                 run_wellbeing = pt_wellbeing final,
                                 finalEffort = pt_effort final\<rparr>])))
      else Inr results)"
  by pat_completeness auto
termination
  by (relation "measure (\<lambda>(p, numRuns, finalTime, random, i, results). nat (numRuns - i))") auto

definition runMultipleSimulations ::
    "params \<Rightarrow> int \<Rightarrow> int \<Rightarrow> (int \<Rightarrow> real) \<Rightarrow> js_error + RunSummary list" where
  "runMultipleSimulations p numRuns finalTime random = runs_loop p numRuns finalTime random 0 []"

section \<open>Periods of a run\<close>

text \<open>
  The periods that the loop goes through from \<open>time\<close> on: for each one the time, the
  state before, the values computed and the state after. The trajectory of a run is
  the sequence of the points recorded at the sampled periods (\<open>sim_loop_trace\<close> below).
\<close>

function sim_trace ::
    "params \<Rightarrow> int \<Rightarrow> int \<Rightarrow> sim_state \<Rightarrow> (int \<times> sim_state \<times> period_values \<times> sim_state) list" where
  "sim_trace p finalTime time st =
     (if time \<le> finalTime then
        (let (v, st') = period_step p finalTime time st
         in (time, st, v, st') # sim_trace p finalTime (time + 1) st')
      else [])"
  by pat_completeness auto
termination
  by (relation "measure (\<lambda>(p, finalTime, time, st). nat (finalTime + 1 - time))") auto

text \<open>The points recorded for a sequence of periods.\<close>

definition sampled :: "(int \<times> sim_state \<times> period_values \<times> sim_state) list \<Rightarrow> TrajectoryPoint list" where
  "sampled tr =
     map (\<lambda>(time, st, v, st'). record_point time v st')
       (filter (\<lambda>(time, st, v, st'). time mod 5 = 0) tr)"

text \<open>
  The periods of a whole run: the loop started at time 0 from the initial state of the
  base seed. \<^verbatim>\<open>runSimulation\<close> returns the points recorded for them
  (\<open>runSimulation_periods\<close> below).
\<close>

definition run_periods ::
    "params \<Rightarrow> int \<Rightarrow> int option \<Rightarrow> real \<Rightarrow> (int \<times> sim_state \<times> period_values \<times> sim_state) list" where
  "run_periods p finalTime seed random =
     sim_trace p finalTime 0 (initial_state (baseSeed seed random))"

text \<open>
  A number \<open>y\<close> that is \<open>x\<close> rounded to three decimals, in the words of the
  specification: \<open>y\<close> is a whole number of thousandths (the nearest whole number to
  \<open>1000 * y\<close>, divided by 1000, is \<open>y\<close> again) and at most half a thousandth away
  from \<open>x\<close>. The special values are kept.
\<close>

fun rounded_to_3_decimals :: "jsnum \<Rightarrow> jsnum \<Rightarrow> bool" where
  "rounded_to_3_decimals (Num x) (Num y) =
     (y = of_int \<lfloor>y * 1000 + 1 / 2\<rfloor> / 1000 \<and> \<bar>y - x\<bar> \<le> 1 / 2000)"
| "rounded_to_3_decimals (Num x) b = False"
| "rounded_to_3_decimals a b = (b = a)"

text \<open>
  A point that records a period: it carries the time of the period and, rounded to three
  decimals, the four stocks after the update and the values computed in the period.
\<close>

definition records_period ::
    "TrajectoryPoint \<Rightarrow> int \<times> sim_state \<times> period_values \<times> sim_state \<Rightarrow> bool" where
  "records_period pt e =
     (case e of (time, st, v, st') \<Rightarrow>
        period pt = time \<and>
        rounded_to_3_decimals (motivation st') (pt_motivation pt) \<and>
        rounded_to_3_decimals (strain st') (pt_strain pt) \<and>
        rounded_to_3_decimals (effort v) (pt_effort pt) \<and>
        rounded_to_3_decimals (progress st') (pt_performance pt) \<and>
        rounded_to_3_decimals (wellbeing v) (pt_wellbeing pt) \<and>
        rounded_to_3_decimals (resources v) (pt_resources pt) \<and>
        rounded_to_3_decimals (recovery v) (pt_recovery pt) \<and>
        rounded_to_3_decimals (cumulativeEffort st') (pt_cumulativeEffort pt) \<and>
        rounded_to_3_decimals (challengeStressors v) (pt_challengeStressors pt) \<and>
        rounded_to_3_decimals (hindranceStressors v) (pt_hindranceStressors pt) \<and>
        rounded_to_3_decimals (advance v) (pt_advance pt) \<and>
        rounded_to_3_decimals (setback v) (pt_setback pt))"

text \<open>The summary that \<^verbatim>\<open>runMultipleSimulations\<close> pushes for run \<open>i\<close>.\<close>

definition summary_of :: "int \<Rightarrow> TrajectoryPoint list \<Rightarrow> RunSummary" where
  "summary_of i trajectory =
     \<lparr>run = i,
      performance = pt_performance (last trajectory),
      run_wellbeing = pt_wellbeing (last trajectory),
      finalEffort = pt_effort (last trajectory)\<rparr>"

section \<open>Inputs used in the examples\<close>

text \<open>
  The coefficients and the parameters with which the dashboard starts
  (\<^verbatim>\<open>useState(0.5)\<close>, \<^verbatim>\<open>useState(0.2)\<close>, every coefficient 1).
\<close>

definition default_coefficients :: coefficients where
  "default_coefficients =
     \<lparr>var1 = Some 1, var2 = Some 1, var3 = Some 1, var4 = Some 1, var5 = Some 1,
      var6 = Some 1, var7 = Some 1, var8 = Some 1, var9 = Some 1, var10 = Some 1\<rparr>"

definition default_params :: params where
  "default_params =
     \<lparr>ambition = 1 / 2, skill = 1 / 2, selfRegulation = 1 / 2, dynamism = 1 / 5,
      coefficients = default_coefficients\<rparr>"

section \<open>The generator's arithmetic\<close>

lemma and_0x7fffffff_mod: "and_0x7fffffff x = x mod 2 ^ 31"
proof -
  have eq: "(0x7fffffff :: 32 word) = mask 31"
    by (simp add: mask_eq_exp_minus_1)
  have "and_0x7fffffff x = uint (take_bit 31 (word_of_int x :: 32 word))"
    unfolding and_0x7fffffff_def eq by (simp add: take_bit_eq_mask)
  also have "\<dots> = take_bit 31 (take_bit 32 x)"
    by (simp add: unsigned_take_bit_eq uint_word_of_int_eq)
  also have "\<dots> = take_bit 31 x"
    by simp
  also have "\<dots> = x mod 2 ^ 31"
    by (simp add: take_bit_eq_mod)
  finally show ?thesis .
qed

lemma round_to_double_small: "\<bar>n\<bar> < 2 ^ 53 \<Longrightarrow> round_to_double n = n"
proof -
  assume "\<bar>n\<bar> < 2 ^ 53"
  then have "nat \<bar>n\<bar> < 2 ^ 53"
    by (simp add: nat_less_iff)
  then have "floorlog 2 (nat \<bar>n\<bar>) \<le> 53"
    by (intro floorlog_leI) auto
  then show ?thesis
    by (simp add: round_to_double_def Let_def mult_sgn_abs)
qed

lemma floorlog_2_binade:
  assumes "2 ^ k \<le> n" "n < 2 ^ Suc k"
  shows "floorlog 2 n = Suc k"
proof -
  have "floorlog 2 n \<le> Suc k"
    using assms(2) by (intro floorlog_leI) auto
  moreover have "Suc k \<le> floorlog 2 n"
    using assms(1) by (intro floorlog_ge_SucI) auto
  ultimately show ?thesis by simp
qed

lemma round_to_double_binade:
  assumes "2 ^ (52 + k) \<le> \<bar>n\<bar>" "\<bar>n\<bar> < 2 ^ (53 + k)"
  shows "round_to_double n =
           sgn n * (2 ^ k * (if 2 ^ k < 2 * (\<bar>n\<bar> mod 2 ^ k)
                                \<or> (2 * (\<bar>n\<bar> mod 2 ^ k) = 2 ^ k \<and> odd (\<bar>n\<bar> div 2 ^ k))
                             then \<bar>n\<bar> div 2 ^ k + 1 else \<bar>n\<bar> div 2 ^ k))"
proof -
  have "2 ^ (52 + k) \<le> nat \<bar>n\<bar>"
    using assms(1) by (simp add: le_nat_iff)
  moreover have "nat \<bar>n\<bar> < 2 ^ Suc (52 + k)"
    using assms(2) by (simp add: nat_less_iff)
  ultimately have "floorlog 2 (nat \<bar>n\<bar>) = Suc (52 + k)"
    by (rule floorlog_2_binade)
  then show ?thesis
    by (simp add: round_to_double_def Let_def)
qed

lemma next_seed_range: "0 \<le> next_seed s \<and> next_seed s < 2 ^ 31"
  by (simp add: next_seed_def and_0x7fffffff_mod)

lemma next_seed_0: "next_seed 0 = 12345"
  by (simp add: next_seed_def and_0x7fffffff_mod round_to_double_small)

lemma SeededRandom_next_eq:
  "SeededRandom_next s = (Num (of_int (next_seed s) / 2147483647), next_seed s)"
  by (simp add: SeededRandom_next_def Let_def)

lemma round_to_double_large:
  assumes "2 ^ 53 \<le> \<bar>n\<bar>"
  shows "even (round_to_double n) \<and> 2 ^ 53 \<le> \<bar>round_to_double n\<bar>"
proof -
  define fl where "fl = floorlog 2 (nat \<bar>n\<bar>)"
  have pos: "0 < nat \<bar>n\<bar>" using assms by simp
  from floorlog_bounds[OF pos, of 2]
  have lo: "2 ^ (fl - 1) \<le> nat \<bar>n\<bar>" and hi: "nat \<bar>n\<bar> < 2 ^ fl"
    by (simp_all add: fl_def)
  have "(2::nat) ^ 53 \<le> nat \<bar>n\<bar>"
    using assms by (simp add: le_nat_iff)
  with hi have "(2::nat) ^ 53 < 2 ^ fl" by linarith
  have "53 < fl"
  proof (rule ccontr)
    assume "\<not> 53 < fl"
    then have "fl \<le> 53" by simp
    then have "(2::nat) ^ fl \<le> 2 ^ 53" by (intro power_increasing) simp_all
    with \<open>(2::nat) ^ 53 < 2 ^ fl\<close> show False by linarith
  qed
  then obtain k where fl: "fl = 53 + k" and k: "0 < k"
    by (metis less_imp_add_positive)
  have "(2::nat) ^ (52 + k) \<le> nat \<bar>n\<bar>"
    using lo fl by simp
  then have lo': "2 ^ (52 + k) \<le> \<bar>n\<bar>"
    by (simp add: le_nat_iff)
  have "nat \<bar>n\<bar> < (2::nat) ^ (53 + k)"
    using hi fl by simp
  then have hi': "\<bar>n\<bar> < 2 ^ (53 + k)"
    by (simp add: nat_less_iff)
  define q :: int where "q = 2 ^ k"
  define d' where "d' = (if q < 2 * (\<bar>n\<bar> mod q) \<or> (2 * (\<bar>n\<bar> mod q) = q \<and> odd (\<bar>n\<bar> div q))
                         then \<bar>n\<bar> div q + 1 else \<bar>n\<bar> div q)"
  have eq: "round_to_double n = sgn n * (q * d')"
    using round_to_double_binade[OF lo' hi'] by (simp add: q_def d'_def)
  have "(2::int) ^ 1 \<le> 2 ^ k"
    using k by (intro power_increasing) simp_all
  then have q: "0 < q" "even q" "2 \<le> q"
    using k by (simp_all add: q_def)
  have ev: "even (round_to_double n)"
    unfolding eq using q(2) by simp
  have "2 ^ 52 * q \<le> \<bar>n\<bar>"
    using lo' by (simp add: power_add q_def)
  then have "(2 ^ 52 * q) div q \<le> \<bar>n\<bar> div q"
    using q(1) by (intro zdiv_mono1) simp_all
  then have "2 ^ 52 \<le> \<bar>n\<bar> div q"
    using q(1) by simp
  then have d': "2 ^ 52 \<le> d'"
    by (simp add: d'_def)
  have "2 * 2 ^ 52 \<le> q * d'"
    using q(3) d' by (intro mult_mono) simp_all
  moreover have "\<bar>round_to_double n\<bar> = q * d'"
  proof -
    have "n \<noteq> 0" using assms by auto
    then have "\<bar>sgn n\<bar> = 1" by (simp add: abs_sgn_eq)
    moreover have "\<bar>q\<bar> = q" "\<bar>d'\<bar> = d'" using q(1) d' by simp_all
    ultimately show ?thesis unfolding eq by (simp add: abs_mult)
  qed
  ultimately show ?thesis using ev by simp
qed

lemma even_mod_2_31: "even x \<Longrightarrow> x mod 2 ^ 31 \<noteq> (2147483647 :: int)"
proof
  assume "even x" and eq: "x mod 2 ^ 31 = 2147483647"
  have "even (x mod 2 ^ 31)"
    using \<open>even x\<close> by (simp add: dvd_mod_iff)
  then show False unfolding eq by simp
qed

lemma exact_preimage:
  assumes "(s * 1103515245 + 12345) mod 2 ^ 31 = (2147483647 :: int)"
  shows "s mod 2 ^ 31 = 230538014"
proof -
  have "(s * 1103515245 + 12345) mod 2147483648 = 2147483647"
    using assms by simp
  then obtain k where k: "s * 1103515245 + 12345 = 2147483648 * k + 2147483647"
    by (metis mult_div_mod_eq)
  from k have "s * 1103515245 = 2147483648 * k + 2147471302"
    by simp
  then have "s * 1103515245 * 1857678181 = (2147483648 * k + 2147471302) * 1857678181"
    by (rule arg_cong)
  then have "s = 2147483648 * (k * 1857678181 + 1857667501 - s * 954594553) + 230538014"
    by (simp add: algebra_simps)
  then have "s mod 2147483648 = 230538014 mod 2147483648"
    by (metis mod_mult_self4)
  then show ?thesis by simp
qed

lemma residue_too_large:
  assumes "s mod 2 ^ 31 = (230538014 :: int)" "\<bar>s\<bar> \<le> 8162278"
  shows False
proof (cases "0 \<le> s")
  case True
  then have "s mod 2 ^ 31 = s"
    using assms(2) by (intro mod_pos_pos_trivial) simp_all
  with assms show False by simp
next
  case False
  then have "0 \<le> s + 2 ^ 31" "s + 2 ^ 31 < 2 ^ 31"
    using assms(2) by simp_all
  then have "(s + 2 ^ 31) mod 2 ^ 31 = s + 2 ^ 31"
    by (intro mod_pos_pos_trivial)
  then have "s mod 2 ^ 31 = s + 2 ^ 31"
    by simp
  with assms show False by simp
qed

lemma mod_2_31_shift: "(y + 2 ^ 53) mod 2 ^ 31 = (y :: int) mod 2 ^ 31"
proof -
  have "(2::int) ^ 53 = 4194304 * 2 ^ 31" by simp
  then have "(y + 2 ^ 53) mod 2 ^ 31 = (y + 4194304 * 2 ^ 31) mod 2 ^ 31"
    by (simp only:)
  also have "\<dots> = y mod 2 ^ 31"
    by (rule mod_mult_self1)
  finally show ?thesis .
qed

text \<open>
  \<^verbatim>\<open>next()\<close> never returns 1: the seed \<open>2 ^ 31 - 1\<close> is odd, so it could only come from
  a sum of magnitude below \<open>2 ^ 53\<close>, and the one residue of seeds that the exact
  arithmetic maps to it is too large for that.
\<close>

lemma next_seed_not_max: "next_seed s \<noteq> 2147483647"
proof
  assume top: "next_seed s = 2147483647"
  define x1 where "x1 = round_to_double (s * 1103515245)"
  define y where "y = x1 + 12345"
  have ns: "round_to_double y mod 2 ^ 31 = 2147483647"
    using top by (simp add: next_seed_def and_0x7fffffff_mod x1_def y_def)
  have small_y: "\<bar>y\<bar> < 2 ^ 53"
  proof (rule ccontr)
    assume "\<not> \<bar>y\<bar> < 2 ^ 53"
    then have "even (round_to_double y)"
      using round_to_double_large[of y] by simp
    with ns show False using even_mod_2_31 by blast
  qed
  then have "round_to_double y = y"
    by (rule round_to_double_small)
  with ns have y: "y mod 2 ^ 31 = 2147483647"
    by simp
  show False
  proof (cases "\<bar>s * 1103515245\<bar> < 2 ^ 53")
    case True
    then have "x1 = s * 1103515245"
      unfolding x1_def by (rule round_to_double_small)
    with y have "(s * 1103515245 + 12345) mod 2 ^ 31 = 2147483647"
      by (simp add: y_def)
    then have "s mod 2 ^ 31 = 230538014"
      by (rule exact_preimage)
    moreover have "\<bar>s\<bar> \<le> 8162278"
      using True by simp
    ultimately show False
      by (rule residue_too_large)
  next
    case False
    then have "2 ^ 53 \<le> \<bar>x1\<bar>"
      using round_to_double_large[of "s * 1103515245"] by (simp add: x1_def)
    with small_y have lo: "- (2 ^ 53) - 12345 < x1" and hi: "x1 \<le> - (2 ^ 53)"
      by (simp_all add: y_def)
    have "0 \<le> y + 2 ^ 53" "y + 2 ^ 53 < 2 ^ 31"
      using lo hi by (simp_all add: y_def)
    then have "(y + 2 ^ 53) mod 2 ^ 31 = y + 2 ^ 53"
      by (intro mod_pos_pos_trivial)
    then have "y mod 2 ^ 31 = y + 2 ^ 53"
      by (simp only: mod_2_31_shift)
    with y hi show False
      by (simp add: y_def)
  qed
qed

lemma SeededRandom_next_range:
  "\<exists>u. fst (SeededRandom_next s) = Num u \<and> 0 \<le> u \<and> u < 1"
proof -
  have "next_seed s < 2147483647"
    using next_seed_range[of s] next_seed_not_max[of s] by simp
  then show ?thesis
    using next_seed_range[of s]
    by (intro exI[of _ "real_of_int (next_seed s) / 2147483647"]) (simp add: SeededRandom_next_eq)
qed

text \<open>Steps of the generator at the seeds of the examples.\<close>

lemma next_seed_2088216195: "next_seed 2088216195 = 0"
proof -
  have "round_to_double (2088216195 * 1103515245) = 2304378406038392832"
    by (subst round_to_double_binade[where k = 8]) simp_all
  moreover have "round_to_double (2304378406038392832 + 12345) = 2304378406038405120"
    by (subst round_to_double_binade[where k = 8]) simp_all
  ultimately show ?thesis
    by (simp add: next_seed_def and_0x7fffffff_mod)
qed

lemma next_seed_1250496027: "next_seed 1250496027 = 1116302080"
proof -
  have "round_to_double (1250496027 * 1103515245) = 1379941429606431488"
    by (subst round_to_double_binade[where k = 8]) simp_all
  moreover have "round_to_double (1379941429606431488 + 12345) = 1379941429606443776"
    by (subst round_to_double_binade[where k = 8]) simp_all
  ultimately show ?thesis
    by (simp add: next_seed_def and_0x7fffffff_mod)
qed

lemma next_seed_42: "next_seed 42 = 1250496027"
proof -
  have "round_to_double (42 * 1103515245) = 46347640290"
    by (simp add: round_to_double_small)
  moreover have "round_to_double (46347640290 + 12345) = 46347652635"
    by (simp add: round_to_double_small)
  ultimately show ?thesis
    by (simp add: next_seed_def and_0x7fffffff_mod)
qed

lemma next_seed_2042: "next_seed 2042 = 667795883"
proof -
  have "round_to_double (2042 * 1103515245) = 2253378130290"
    by (simp add: round_to_double_small)
  moreover have "round_to_double (2253378130290 + 12345) = 2253378142635"
    by (simp add: round_to_double_small)
  ultimately show ?thesis
    by (simp add: next_seed_def and_0x7fffffff_mod)
qed

lemma next_seed_667795883: "next_seed 667795883 = 1491058688"
proof -
  have "round_to_double (667795883 * 1103515245) = 736922937438736384"
    by (subst round_to_double_binade[where k = 7]) simp_all
  moreover have "round_to_double (736922937438736384 + 12345) = 736922937438748672"
    by (subst round_to_double_binade[where k = 7]) simp_all
  ultimately show ?thesis
    by (simp add: next_seed_def and_0x7fffffff_mod)
qed

lemma next_seed_3042: "next_seed 3042 = 376445811"
proof -
  have "round_to_double (3042 * 1103515245) = 3356893375290"
    by (simp add: round_to_double_small)
  moreover have "round_to_double (3356893375290 + 12345) = 3356893387635"
    by (simp add: round_to_double_small)
  ultimately show ?thesis
    by (simp add: next_seed_def and_0x7fffffff_mod)
qed

lemma next_seed_376445811: "next_seed 376445811 = 604695104"
proof -
  have "round_to_double (376445811 * 1103515245) = 415413691354888704"
    by (subst round_to_double_binade[where k = 6]) simp_all
  moreover have "round_to_double (415413691354888704 + 12345) = 415413691354901056"
    by (subst round_to_double_binade[where k = 6]) simp_all
  ultimately show ?thesis
    by (simp add: next_seed_def and_0x7fffffff_mod)
qed

lemma next_seed_52: "next_seed 52 = 1548230237"
proof -
  have "round_to_double (52 * 1103515245) = 57382792740"
    by (simp add: round_to_double_small)
  moreover have "round_to_double (57382792740 + 12345) = 57382805085"
    by (simp add: round_to_double_small)
  ultimately show ?thesis
    by (simp add: next_seed_def and_0x7fffffff_mod)
qed

lemma next_seed_2052: "next_seed 2052 = 965530093"
proof -
  have "round_to_double (2052 * 1103515245) = 2264413282740"
    by (simp add: round_to_double_small)
  moreover have "round_to_double (2264413282740 + 12345) = 2264413295085"
    by (simp add: round_to_double_small)
  ultimately show ?thesis
    by (simp add: next_seed_def and_0x7fffffff_mod)
qed

lemma next_seed_965530093: "next_seed 965530093 = 1933166592"
proof -
  have "round_to_double (965530093 * 1103515245) = 1065477177131767808"
    by (subst round_to_double_binade[where k = 7]) simp_all
  moreover have "round_to_double (1065477177131767808 + 12345) = 1065477177131780096"
    by (subst round_to_double_binade[where k = 7]) simp_all
  ultimately show ?thesis
    by (simp add: next_seed_def and_0x7fffffff_mod)
qed

section \<open>Arithmetic on finite numbers\<close>

lemma Num_arith [simp]:
  "Num x + Num y = Num (x + y)"
  "Num x - Num y = Num (x - y)"
  "Num x * Num y = Num (x * y)"
  "- Num x = Num (- x)"
  "strict_eq (Num x) (Num y) \<longleftrightarrow> x = y"
  "Math_max (Num x) (Num y) = Num (max x y)"
  "Math_min (Num x) (Num y) = Num (min x y)"
  by (auto simp: plus_jsnum_def minus_jsnum_def times_jsnum_def uminus_jsnum_def
      strict_eq_def Math_max_def Math_min_def)

lemma Num_div [simp]: "y \<noteq> 0 \<Longrightarrow> Num x / Num y = Num (x / y)"
  by (simp add: divide_jsnum_def)

lemma NaN_arith [simp]:
  "NaN + x = NaN" "x + NaN = NaN" "NaN - x = NaN" "x - NaN = NaN"
  "NaN * x = NaN" "x * NaN = NaN"
  "Math_max NaN x = NaN" "Math_max x NaN = NaN" "Math_min NaN x = NaN" "Math_min x NaN = NaN"
  by (cases x; simp add: plus_jsnum_def minus_jsnum_def times_jsnum_def Math_max_def Math_min_def)+


lemma toFixed3_0_1 [simp]: "toFixed3 (Num 0) = Num 0" "toFixed3 (Num 1) = Num 1"
  by simp_all

lemma toFixed3_half [simp]: "toFixed3 (Num (1 / 2)) = Num (1 / 2)"
  by simp

lemma toFixed3_pos:
  assumes "1 / 4 \<le> x"
  shows "toFixed3 (Num x) \<noteq> Num 0"
proof -
  have "(1::real) \<le> x * 1000 + 1 / 2"
    using assms by simp
  then have "1 \<le> \<lfloor>x * 1000 + 1 / 2\<rfloor>"
    by (subst le_floor_iff) simp
  then have "\<lfloor>x * 1000 + 1 / 2\<rfloor> \<noteq> 0"
    by linarith
  moreover have "\<not> x < 0"
    using assms by simp
  ultimately show ?thesis
    by (simp del: floor_add_int add: )
qed

lemma nearest_thousandth:
  fixes z :: real
  shows "\<bar>of_int \<lfloor>z + 1 / 2\<rfloor> / 1000 - z / 1000\<bar> \<le> 1 / 2000"
proof -
  define d where "d = of_int \<lfloor>z + 1 / 2\<rfloor> - z"
  have "of_int \<lfloor>z + 1 / 2\<rfloor> \<le> z + 1 / 2" "z + 1 / 2 < of_int \<lfloor>z + 1 / 2\<rfloor> + 1"
    by linarith+
  then have d: "\<bar>d\<bar> \<le> 1 / 2"
    unfolding d_def by linarith
  have eq: "of_int \<lfloor>z + 1 / 2\<rfloor> / 1000 - z / 1000 = d / 1000"
    by (simp add: d_def diff_divide_distrib)
  show ?thesis
    unfolding eq using d by simp
qed

lemma toFixed3_rounds: "rounded_to_3_decimals x (toFixed3 x)"
proof (cases x)
  case (Num r)
  show ?thesis
  proof (cases "r < 0")
    case True
    have "\<bar>- (of_int \<lfloor>- r * 1000 + 1 / 2\<rfloor> / 1000) - r\<bar>
            = \<bar>of_int \<lfloor>- r * 1000 + 1 / 2\<rfloor> / 1000 - (- r * 1000) / 1000\<bar>"
      by simp
    also have "\<dots> \<le> 1 / 2000"
      by (rule nearest_thousandth)
    finally show ?thesis
      using Num True by simp
  next
    case False
    have "\<bar>of_int \<lfloor>r * 1000 + 1 / 2\<rfloor> / 1000 - r\<bar>
            = \<bar>of_int \<lfloor>r * 1000 + 1 / 2\<rfloor> / 1000 - (r * 1000) / 1000\<bar>"
      by simp
    also have "\<dots> \<le> 1 / 2000"
      by (rule nearest_thousandth)
    finally show ?thesis
      using Num False by simp
  qed
qed simp_all




section \<open>The samplers\<close>

lemma cos_first_after_zero: "0 < cos (2 * pi * (12345 / 2147483647))"
proof -
  have "2 * pi * (12345 / 2147483647) < pi / 2"
    using pi_gt_zero by (simp add: field_simps)
  moreover have "- (pi / 2) < 2 * pi * (12345 / 2147483647)"
    using pi_gt_zero by (simp add: field_simps)
  ultimately show ?thesis
    by (rule cos_gt_zero_pi[rotated])
qed

text \<open>
  \<^verbatim>\<open>nextNormal\<close> with mean 0: a finite value unless the first draw is 0, where
  \<^verbatim>\<open>Math.log\<close> is \<^verbatim>\<open>-Infinity\<close>.
\<close>

lemma nextNormal_value:
  "nextNormal (Num 0) (Num a) s =
     (if next_seed s = 0
      then (if a = 0 then NaN else if 0 < a then PInf else NInf)
      else Num (sqrt (- 2 * ln (of_int (next_seed s) / 2147483647))
                 * cos (2 * pi * (of_int (next_seed (next_seed s)) / 2147483647)) * a),
      next_seed (next_seed s))"
proof (cases "next_seed s = 0")
  case True
  then show ?thesis
    using cos_first_after_zero
    by (simp add: nextNormal_def SeededRandom_next_eq Let_def next_seed_0
        times_jsnum_def plus_jsnum_def)
next
  case False
  let ?u = "of_int (next_seed s) / 2147483647 :: real"
  have pos: "0 < ?u" using False next_seed_range[of s] by simp
  have "?u \<le> 1" using next_seed_range[of s] by simp
  then have "ln ?u \<le> 0" using pos by simp
  then have "\<not> - 2 * ln ?u < 0" by simp
  then show ?thesis
    using False pos
    by (simp add: nextNormal_def SeededRandom_next_eq Let_def)
qed

lemma nextTruncatedNormal_seed:
  "snd (nextTruncatedNormal (Num 0) (Num a) (Num 0) (Num a) s) = next_seed (next_seed s)"
  by (simp add: nextTruncatedNormal_def nextNormal_value)

lemma clamp_value:
  "v \<noteq> NaN \<Longrightarrow> \<exists>x. Math_max (Num 0) (Math_min (Num a) v) = Num x \<and> 0 \<le> x \<and> x \<le> max 0 a"
  by (cases v) (auto simp: Math_max_def Math_min_def)

lemma nextNormal_not_NaN:
  "a \<noteq> 0 \<or> next_seed s \<noteq> 0 \<Longrightarrow> fst (nextNormal (Num 0) (Num a) s) \<noteq> NaN"
  by (auto simp: nextNormal_value)

lemma nextTruncatedNormal_finite:
  assumes "a \<noteq> 0 \<or> next_seed s \<noteq> 0"
  shows "\<exists>x. fst (nextTruncatedNormal (Num 0) (Num a) (Num 0) (Num a) s) = Num x
              \<and> 0 \<le> x \<and> x \<le> max 0 a"
  using clamp_value[OF nextNormal_not_NaN[OF assms], of a]
  by (simp add: nextTruncatedNormal_def split_def Let_def)

lemma nextTruncatedNormal_zero:
  "fst (nextTruncatedNormal (Num 0) (Num 0) (Num 0) (Num 0) s) =
     (if next_seed s = 0 then NaN else Num 0)"
  by (auto simp: nextTruncatedNormal_def nextNormal_value Math_max_def Math_min_def)

lemma nextPoisson_value:
  "fst (nextPoisson (Num d) (Num 0) (Num 1) s) =
     (if of_int (next_seed s) / 2147483647 < d then Num 1 else Num 0)"
  by (simp add: nextPoisson_def SeededRandom_next_eq Let_def)

lemma cos_neg_middle:
  assumes "1 / 4 < u" "u < 3 / 4"
  shows "cos (2 * pi * u) < 0"
proof -
  have "- (pi / 2) < 2 * pi * u - pi"
    using assms(1) pi_gt_zero by (simp add: field_simps)
  moreover have "2 * pi * u - pi < pi / 2"
    using assms(2) pi_gt_zero by (simp add: field_simps)
  ultimately have "0 < cos (2 * pi * u - pi)"
    by (rule cos_gt_zero_pi)
  moreover have "cos (2 * pi * u - pi) = - cos (2 * pi * u)"
    by (simp add: cos_diff)
  ultimately show ?thesis by simp
qed

lemma nextTruncatedNormal_clipped_to_0:
  assumes "0 \<le> a" "next_seed s \<noteq> 0"
    and "1 / 4 < real_of_int (next_seed (next_seed s)) / 2147483647"
    and "real_of_int (next_seed (next_seed s)) / 2147483647 < 3 / 4"
  shows "fst (nextTruncatedNormal (Num 0) (Num a) (Num 0) (Num a) s) = Num 0"
proof -
  let ?r = "sqrt (- 2 * ln (real_of_int (next_seed s) / 2147483647))"
  let ?c = "cos (2 * pi * (real_of_int (next_seed (next_seed s)) / 2147483647))"
  have "?c < 0" using assms(3,4) by (rule cos_neg_middle)
  moreover have "0 \<le> ?r" using next_seed_range[of s] assms(2)
    by (simp add: ln_le_zero_iff divide_le_eq)
  ultimately have "?r * ?c \<le> 0"
    by (simp add: mult_nonneg_nonpos)
  then have "?r * ?c * a \<le> 0"
    using assms(1) by (simp add: mult_nonpos_nonneg)
  then show ?thesis
    using assms(1,2) by (simp add: nextTruncatedNormal_def nextNormal_value)
qed

lemma cos_ge_half_end:
  assumes "5 / 6 \<le> u" "u \<le> 1"
  shows "1 / 2 \<le> cos (2 * pi * u)"
proof -
  have "cos (2 * pi * u) = cos (2 * pi * (1 - u))"
  proof -
    have "2 * pi * (1 - u) = - (2 * pi * u) + 2 * pi"
      by (simp add: algebra_simps)
    then have "cos (2 * pi * (1 - u)) = cos (- (2 * pi * u))"
      by (simp only: cos_periodic)
    then show ?thesis by simp
  qed
  moreover have "cos (pi / 3) \<le> cos (2 * pi * (1 - u))"
  proof (rule cos_monotone_0_pi_le)
    show "0 \<le> 2 * pi * (1 - u)" using assms(2) pi_gt_zero by simp
    show "2 * pi * (1 - u) \<le> pi / 3" using assms(1) pi_gt_zero by (simp add: field_simps)
    show "pi / 3 \<le> pi" using pi_gt_zero by simp
  qed
  ultimately show ?thesis by (simp add: cos_60)
qed

lemma nextTruncatedNormal_at_least_half:
  assumes "0 \<le> a" "next_seed s \<noteq> 0"
    and "real_of_int (next_seed s) / 2147483647 \<le> 1 / 2"
    and "5 / 6 \<le> real_of_int (next_seed (next_seed s)) / 2147483647"
  shows "\<exists>x. fst (nextTruncatedNormal (Num 0) (Num a) (Num 0) (Num a) s) = Num x \<and> a / 2 \<le> x"
proof -
  let ?u1 = "real_of_int (next_seed s) / 2147483647"
  let ?u2 = "real_of_int (next_seed (next_seed s)) / 2147483647"
  let ?r = "sqrt (- 2 * ln ?u1)"
  let ?c = "cos (2 * pi * ?u2)"
  have pos: "0 < ?u1" using next_seed_range[of s] assms(2) by simp
  have "ln ?u1 \<le> ?u1 - 1" using pos by (rule ln_le_minus_one)
  then have "1 \<le> - 2 * ln ?u1" using assms(3) by simp
  then have r: "1 \<le> ?r" by (simp add: real_le_rsqrt)
  have "?u2 \<le> 1" using next_seed_range[of "next_seed s"] by simp
  with assms(4) have c: "1 / 2 \<le> ?c" by (intro cos_ge_half_end)
  have "1 * (1 / 2) \<le> ?r * ?c"
    using r c by (intro mult_mono) simp_all
  then have "(1 / 2) * a \<le> ?r * ?c * a"
    using assms(1) by (intro mult_right_mono) simp_all
  then have "a / 2 \<le> max 0 (min a (?r * ?c * a))"
    using assms(1) by simp
  then show ?thesis
    using assms(2) by (simp add: nextTruncatedNormal_def nextNormal_value)
qed

section \<open>The values of a period, one by one\<close>

lemmas step_unfold = period_step_def Let_def split_def fst_conv snd_conv
  sim_state.select_convs period_values.select_convs

lemma step_progressSensitivity:
  "progressSensitivity (fst (period_step p finalTime time st)) = Num (of_int time) / Num (of_int finalTime)"
  by (simp only: step_unfold)

lemma step_relativeProgress:
  "relativeProgress (fst (period_step p finalTime time st)) =
     (if strict_eq (cumulativeEffort st) (Num 0) then Num 0 else progress st / cumulativeEffort st)"
  by (simp only: step_unfold)

lemma step_resources:
  "resources (fst (period_step p finalTime time st)) =
     Num (ambition p) * (Num 1 - progressSensitivity (fst (period_step p finalTime time st)))
       + relativeProgress (fst (period_step p finalTime time st))
         * progressSensitivity (fst (period_step p finalTime time st))"
  by (simp only: step_unfold)

lemma step_challengeStressors:
  "challengeStressors (fst (period_step p finalTime time st)) =
     (if strict_eq (Num (ambition p)) (Num 0) then Num 0
      else fst (nextTruncatedNormal (Num 0) (Num (ambition p)) (Num 0) (Num (ambition p))
                  (rng2_challenge st)))"
  by (simp only: step_unfold if_distrib[of fst] if_distrib[of snd])

lemma step_hindranceStressors:
  "hindranceStressors (fst (period_step p finalTime time st)) =
     (if strict_eq (Num (ambition p)) (Num 0) then Num 0
      else fst (nextTruncatedNormal (Num 0) (Num (ambition p)) (Num 0) (Num (ambition p))
                  (rng3_hindrance st)))"
  by (simp only: step_unfold if_distrib[of fst] if_distrib[of snd])

lemma step_recovery:
  "recovery (fst (period_step p finalTime time st)) =
     (if strict_eq (Num (ambition p)) (Num 0) then Num 1
      else Num 1 - (Num 1 - Num (selfRegulation p))
             * (Var2 p * challengeStressors (fst (period_step p finalTime time st))
                + Var3 p * hindranceStressors (fst (period_step p finalTime time st)))
             / (Num 2 * Num (ambition p)))"
  by (simp only: step_unfold)

lemma step_motivationIncrease:
  "motivationIncrease (fst (period_step p finalTime time st)) =
     Math_max (challengeStressors (fst (period_step p finalTime time st)))
       (resources (fst (period_step p finalTime time st)))
     * recovery (fst (period_step p finalTime time st)) * Var1 p"
  by (simp only: step_unfold)

lemma step_motivationDecrease:
  "motivationDecrease (fst (period_step p finalTime time st)) =
     Math_min (motivation st)
       ((Num 1 - Num (selfRegulation p)) * hindranceStressors (fst (period_step p finalTime time st))
        * Var7 p)"
  by (simp only: step_unfold)

lemma step_strainIncrease:
  "strainIncrease (fst (period_step p finalTime time st)) =
     (if strict_eq (Num (ambition p)) (Num 0) then Num 0
      else (Num 1 - Num (selfRegulation p))
             * (Var4 p * challengeStressors (fst (period_step p finalTime time st))
                + Var5 p * hindranceStressors (fst (period_step p finalTime time st)))
             / (Num 2 * Num (ambition p)))"
  by (simp only: step_unfold)

lemma step_strainDecrease:
  "strainDecrease (fst (period_step p finalTime time st)) =
     Math_min (strain st)
       (resources (fst (period_step p finalTime time st))
        * recovery (fst (period_step p finalTime time st)) * Var6 p)"
  by (simp only: step_unfold)

lemma step_effort_def:
  "effort (fst (period_step p finalTime time st)) =
     (if strict_eq (motivation st) (Num 0) then Num 0
      else Var8 p * (Num 1 / (Num 1 + Math_exp (strain st - motivation st))))"
  by (simp only: step_unfold)

lemma step_advance:
  "advance (fst (period_step p finalTime time st)) =
     (if strict_eq (Num (skill p)) (Num 0) then Num 0
      else effort (fst (period_step p finalTime time st)) * Num (skill p)
           * fst (nextTruncatedNormal (Num 0) (Num (ambition p)) (Num 0) (Num (ambition p))
                   (rng0_advance st)))"
  by (simp only: step_unfold)

lemma step_setback:
  "setback (fst (period_step p finalTime time st)) =
     fst (nextPoisson (Num (dynamism p)) (Num 0) (Num 1) (rng1_setbackPoisson st))
     * Math_min (progress st)
         (fst (nextTruncatedNormal (Num 0) (Num (ambition p)) (Num 0) (Num (ambition p))
                 (rng1_setback st)))"
  by (simp only: step_unfold)

lemma step_motivation:
  "motivation (snd (period_step p finalTime time st)) =
     Math_max (Num 0) (motivation st + motivationIncrease (fst (period_step p finalTime time st))
                        - motivationDecrease (fst (period_step p finalTime time st)))"
  by (simp only: step_unfold)

lemma step_strain:
  "strain (snd (period_step p finalTime time st)) =
     Math_max (Num 0) (strain st + strainIncrease (fst (period_step p finalTime time st))
                        - strainDecrease (fst (period_step p finalTime time st)))"
  by (simp only: step_unfold)

lemma step_cumulativeEffort:
  "cumulativeEffort (snd (period_step p finalTime time st)) =
     cumulativeEffort st + effort (fst (period_step p finalTime time st))"
  by (simp only: step_unfold)

lemma step_progress:
  "progress (snd (period_step p finalTime time st)) =
     Math_max (Num 0) (progress st + advance (fst (period_step p finalTime time st))
                        - setback (fst (period_step p finalTime time st)))"
  by (simp only: step_unfold)

lemma step_wellbeing:
  "wellbeing (fst (period_step p finalTime time st)) =
     Var9 p * motivation (snd (period_step p finalTime time st))
     - Var10 p * strain (snd (period_step p finalTime time st))"
  by (simp only: step_unfold)

lemma period_step_zero_ambition:
  assumes "ambition p = 0"
  shows "challengeStressors (fst (period_step p finalTime time st)) = Num 0"
    and "hindranceStressors (fst (period_step p finalTime time st)) = Num 0"
    and "strainIncrease (fst (period_step p finalTime time st)) = Num 0"
    and "recovery (fst (period_step p finalTime time st)) = Num 1"
    and "rng2_challenge (snd (period_step p finalTime time st)) = rng2_challenge st"
    and "rng3_hindrance (snd (period_step p finalTime time st)) = rng3_hindrance st"
  using assms by (simp_all add: period_step_def Let_def split_def)

lemma step_effort:
  assumes "motivation st = Num m" "strain st = Num s" "Var8 p = Num c8"
  shows "effort (fst (period_step p finalTime time st)) =
           (if m = 0 then Num 0 else Num (c8 * (1 / (1 + exp (s - m)))))"
proof -
  have "1 + exp (s - m) \<noteq> 0"
    using exp_gt_zero[of "s - m"] by linarith
  then show ?thesis
    by (simp add: period_step_def Let_def split_def assms)
qed


section \<open>Finite stocks after a period\<close>


section \<open>The trajectory as the sampled periods\<close>

declare sim_loop.simps [simp del] sim_trace.simps [simp del] runs_loop.simps [simp del]

lemma sim_loop_trace:
  "sim_loop p finalTime time st trajectory = trajectory @ sampled (sim_trace p finalTime time st)"
proof (induction p finalTime time st trajectory rule: sim_loop.induct)
  case (1 p finalTime time st trajectory)
  show ?case
  proof (cases "time \<le> finalTime")
    case True
    obtain v st' where step: "period_step p finalTime time st = (v, st')"
      by (cases "period_step p finalTime time st")
    show ?thesis
      using True "1.IH"[OF True step[symmetric] refl] step
      by (subst sim_loop.simps, subst sim_trace.simps) (simp add: sampled_def)
  next
    case False
    then show ?thesis
      by (subst sim_loop.simps, subst sim_trace.simps) (simp add: sampled_def)
  qed
qed

lemma runSimulation_trace:
  "runSimulation p finalTime seed random =
     sampled (sim_trace p finalTime 0 (initial_state (baseSeed seed random)))"
  by (simp add: runSimulation_def sim_loop_trace)

lemma runSimulation_periods:
  "runSimulation p finalTime seed random = sampled (run_periods p finalTime seed random)"
  by (simp add: runSimulation_trace run_periods_def)


lemma sim_trace_times: "map fst (sim_trace p finalTime time st) = [time..finalTime]"
proof (induction p finalTime time st rule: sim_trace.induct)
  case (1 p finalTime time st)
  show ?case
  proof (cases "time \<le> finalTime")
    case True
    obtain v st' where step: "period_step p finalTime time st = (v, st')"
      by (cases "period_step p finalTime time st")
    have upto: "[time..finalTime] = time # [time + 1..finalTime]"
      using True by (simp add: upto_rec1)
    show ?thesis
      using True "1.IH"[OF True step[symmetric] refl] step upto
      by (subst sim_trace.simps) simp
  next
    case False
    then show ?thesis by (subst sim_trace.simps) simp
  qed
qed

lemma sampled_periods:
  "map period (sampled tr) = filter (\<lambda>t. t mod 5 = 0) (map fst tr)"
  by (induction tr) (auto simp: sampled_def record_point_def)

lemma every_fifth_500: "filter (\<lambda>t. t mod 5 = 0) [0..500] = map (\<lambda>k. 5 * k) [0..100::int]"
  by code_simp

lemma sim_trace_empty: "finalTime < time \<Longrightarrow> sim_trace p finalTime time st = []"
  by (subst sim_trace.simps) simp

lemma sim_trace_first:
  "0 \<le> finalTime \<Longrightarrow>
   sim_trace p finalTime 0 st =
     (0, st, period_step p finalTime 0 st) # sim_trace p finalTime 1 (snd (period_step p finalTime 0 st))"
  by (subst sim_trace.simps) (simp add: split_def Let_def)

lemma sim_trace_step:
  "time \<le> finalTime \<Longrightarrow>
   sim_trace p finalTime time st =
     (time, st, period_step p finalTime time st)
       # sim_trace p finalTime (time + 1) (snd (period_step p finalTime time st))"
  by (subst sim_trace.simps) (simp add: split_def Let_def)

lemma sim_trace_entries:
  "(time', st0, v, st1) \<in> set (sim_trace p finalTime time st) \<Longrightarrow>
   (v, st1) = period_step p finalTime time' st0"
proof (induction p finalTime time st rule: sim_trace.induct)
  case (1 p finalTime time st)
  show ?case
  proof (cases "time \<le> finalTime")
    case True
    obtain w st' where step: "period_step p finalTime time st = (w, st')"
      by (cases "period_step p finalTime time st")
    from "1.prems" True step
    have "(time', st0, v, st1) = (time, st, w, st')
            \<or> (time', st0, v, st1) \<in> set (sim_trace p finalTime (time + 1) st')"
      by (simp add: sim_trace_step)
    then show ?thesis
      using "1.IH"[OF True step[symmetric] refl] step by auto
  next
    case False
    with "1.prems" show ?thesis by (simp add: sim_trace_empty)
  qed
qed

lemma run_periods_entries:
  "(time, st, v, st') \<in> set (run_periods p finalTime seed random) \<Longrightarrow>
   v = fst (period_step p finalTime time st) \<and> st' = snd (period_step p finalTime time st)"
  using sim_trace_entries[of time st v st' p finalTime 0 "initial_state (baseSeed seed random)"]
  by (cases "period_step p finalTime time st") (simp add: run_periods_def)

lemma runSimulation_first:
  "0 \<le> finalTime \<Longrightarrow>
   hd (runSimulation p finalTime seed random) =
     record_point 0 (fst (period_step p finalTime 0 (initial_state (baseSeed seed random))))
       (snd (period_step p finalTime 0 (initial_state (baseSeed seed random))))"
  by (simp add: runSimulation_trace sim_trace_first sampled_def split_def)

lemma sampled_mem:
  "pt \<in> set (sampled tr) \<Longrightarrow> \<exists>time st v st'. (time, st, v, st') \<in> set tr \<and> pt = record_point time v st'"
  by (auto simp: sampled_def)

lemma record_point_records: "records_period (record_point time v st') (time, st, v, st')"
  by (simp add: records_period_def record_point_def toFixed3_rounds)

lemma sampled_records:
  "list_all2 records_period (sampled tr) (filter (\<lambda>(time, st, v, st'). time mod 5 = 0) tr)"
  by (induction tr) (auto simp: sampled_def record_point_records)

lemma runSimulation_empty_iff: "runSimulation p finalTime seed random = [] \<longleftrightarrow> finalTime < 0"
proof (cases "finalTime < 0")
  case True
  then show ?thesis by (simp add: runSimulation_trace sim_trace_empty sampled_def)
next
  case False
  then show ?thesis by (simp add: runSimulation_trace sim_trace_first sampled_def split_def)
qed

section \<open>The runs of a campaign\<close>

lemma runs_loop_TypeError:
  "finalTime < 0 \<Longrightarrow> i < numRuns \<Longrightarrow> runs_loop p numRuns finalTime random i results = Inl TypeError"
  by (subst runs_loop.simps) (simp add: runSimulation_empty_iff)

lemma runs_loop_summaries:
  "0 \<le> finalTime \<Longrightarrow>
   runs_loop p numRuns finalTime random i results =
     Inr (results @ map (\<lambda>i. summary_of i (runSimulation p finalTime None (random i))) [i..numRuns - 1])"
proof (induction p numRuns finalTime random i results rule: runs_loop.induct)
  case (1 p numRuns finalTime random i results)
  show ?case
  proof (cases "i < numRuns")
    case True
    have ne: "runSimulation p finalTime None (random i) \<noteq> []"
      using "1.prems" by (simp add: runSimulation_empty_iff)
    have upto: "[i..numRuns - 1] = i # [i + 1..numRuns - 1]"
      using True by (simp add: upto_rec1)
    show ?thesis
      using True ne "1.IH"[OF True refl ne refl "1.prems"] upto
      by (subst runs_loop.simps) (simp add: summary_of_def Let_def)
  next
    case False
    then show ?thesis by (subst runs_loop.simps) simp
  qed
qed

section \<open>The first period with horizon 0\<close>

lemma horizon_0_first_period:
  "motivation (snd (period_step p 0 0 (initial_state b))) = NaN"
  "strain (snd (period_step p 0 0 (initial_state b))) = NaN"
proof -
  let ?v = "fst (period_step p 0 0 (initial_state b))"
  have "progressSensitivity ?v = NaN"
    by (simp add: step_progressSensitivity divide_jsnum_def)
  then have res: "resources ?v = NaN"
    by (simp add: step_resources)
  show "motivation (snd (period_step p 0 0 (initial_state b))) = NaN"
    by (simp add: step_motivation step_motivationIncrease res)
  show "strain (snd (period_step p 0 0 (initial_state b))) = NaN"
    by (simp add: step_strain step_strainDecrease res)
qed

section \<open>The first period of the run with seed 42\<close>

lemma initial_state_42:
  "rng0_advance (initial_state 42) = 42"
  "rng1_setback (initial_state 42) = 1042"
  "rng1_setbackPoisson (initial_state 42) = 1542"
  "rng2_challenge (initial_state 42) = 2042"
  "rng3_hindrance (initial_state 42) = 3042"
  "motivation (initial_state b) = Num 0"
  "strain (initial_state b) = Num 0"
  "cumulativeEffort (initial_state b) = Num 0"
  "progress (initial_state b) = Num 0"
  by (simp_all add: initial_state_def round_to_double_small)

text \<open>Beyond \<open>2 ^ 53\<close> the sum of the base seed and an offset is rounded.\<close>

lemma setback_seed_rounded:
  "rng1_setback (initial_state 9007199254740991) = 9007199254741992"
proof -
  have "round_to_double (9007199254740991 + 1000) = 9007199254741992"
    by (subst round_to_double_binade[where k = 1]) simp_all
  then show ?thesis
    by (simp add: initial_state_def)
qed

lemma challenge_42: "fst (nextTruncatedNormal (Num 0) (Num (1 / 2)) (Num 0) (Num (1 / 2)) 2042) = Num 0"
  by (rule nextTruncatedNormal_clipped_to_0) (simp_all add: next_seed_2042 next_seed_667795883)

lemma hindrance_42: "fst (nextTruncatedNormal (Num 0) (Num (1 / 2)) (Num 0) (Num (1 / 2)) 3042) = Num 0"
  by (rule nextTruncatedNormal_clipped_to_0) (simp_all add: next_seed_3042 next_seed_376445811)

text \<open>The first period of the run with seed 42, for the default parameters and any \<open>var8\<close>.\<close>

lemma first_period_seed_42:
  fixes c8 :: "real option"
  defines "p \<equiv> default_params\<lparr>coefficients := default_coefficients\<lparr>var8 := c8\<rparr>\<rparr>"
  shows "motivation (snd (period_step p 500 0 (initial_state 42))) = Num (1 / 2)"
    and "strain (snd (period_step p 500 0 (initial_state 42))) = Num 0"
    and "cumulativeEffort (snd (period_step p 500 0 (initial_state 42))) = Num 0"
    and "progress (snd (period_step p 500 0 (initial_state 42))) = Num 0"
proof -
  let ?v = "fst (period_step p 500 0 (initial_state 42))"
  have p: "ambition p = 1 / 2" "skill p = 1 / 2" "selfRegulation p = 1 / 2"
    "Var1 p = Num 1" "Var2 p = Num 1" "Var3 p = Num 1" "Var4 p = Num 1" "Var5 p = Num 1"
    "Var6 p = Num 1" "Var7 p = Num 1"
    by (simp_all add: p_def default_params_def default_coefficients_def or_1_def
        Var1_def Var2_def Var3_def Var4_def Var5_def Var6_def Var7_def)
  have ch: "challengeStressors ?v = Num 0"
    by (simp add: step_challengeStressors p initial_state_42 challenge_42)
  have hi: "hindranceStressors ?v = Num 0"
    by (simp add: step_hindranceStressors p initial_state_42 hindrance_42)
  have res: "resources ?v = Num (1 / 2)"
    by (simp add: step_resources step_progressSensitivity step_relativeProgress p initial_state_42)
  have rec: "recovery ?v = Num 1"
    by (simp add: step_recovery p ch hi)
  have eff: "effort ?v = Num 0"
    by (simp add: step_effort_def initial_state_42)
  obtain ad where ad: "fst (nextTruncatedNormal (Num 0) (Num (1 / 2)) (Num 0) (Num (1 / 2)) 42) = Num ad"
    using nextTruncatedNormal_finite[of "1 / 2" 42] by auto
  obtain sb where sb: "fst (nextTruncatedNormal (Num 0) (Num (1 / 2)) (Num 0) (Num (1 / 2)) 1042) = Num sb"
    and sb0: "0 \<le> sb"
    using nextTruncatedNormal_finite[of "1 / 2" 1042] by auto
  have adv: "advance ?v = Num 0"
    by (simp add: step_advance p eff initial_state_42 ad)
  have setb: "setback ?v = Num 0"
    using sb0 by (simp add: step_setback p initial_state_42 sb nextPoisson_value)
  show "motivation (snd (period_step p 500 0 (initial_state 42))) = Num (1 / 2)"
    by (simp add: step_motivation step_motivationIncrease step_motivationDecrease p ch hi res rec
        initial_state_42)
  show "strain (snd (period_step p 500 0 (initial_state 42))) = Num 0"
    by (simp add: step_strain step_strainIncrease step_strainDecrease p ch hi res rec
        initial_state_42)
  show "cumulativeEffort (snd (period_step p 500 0 (initial_state 42))) = Num 0"
    by (simp add: step_cumulativeEffort eff initial_state_42)
  show "progress (snd (period_step p 500 0 (initial_state 42))) = Num 0"
    by (simp add: step_progress adv setb initial_state_42)
qed

lemma default_params_var8:
  "default_params\<lparr>coefficients := default_coefficients\<lparr>var8 := Some 1\<rparr>\<rparr> = default_params"
  by (simp add: default_params_def default_coefficients_def)


text \<open>Two runs with seed 0 that differ in the challenge stressors recorded at period 0.\<close>

lemma seed_0_runs_differ:
  "runSimulation default_params 500 (Some 0) (42 / 1000000)
     \<noteq> runSimulation default_params 500 (Some 0) (52 / 1000000)"
proof -
  have p: "ambition default_params = 1 / 2"
    by (simp add: default_params_def)
  have "pt_challengeStressors (hd (runSimulation default_params 500 (Some 0) (42 / 1000000))) = Num 0"
    by (simp add: runSimulation_first baseSeed_def record_point_def step_challengeStressors p
        initial_state_42 challenge_42)
  moreover have "pt_challengeStressors (hd (runSimulation default_params 500 (Some 0) (52 / 1000000))) \<noteq> Num 0"
  proof -
    have "rng2_challenge (initial_state 52) = 2052"
      by (simp add: initial_state_def round_to_double_small)
    moreover obtain x where "fst (nextTruncatedNormal (Num 0) (Num (1 / 2)) (Num 0) (Num (1 / 2)) 2052) = Num x"
      and "1 / 4 \<le> x"
      using nextTruncatedNormal_at_least_half[of "1 / 2" 2052]
      by (auto simp: next_seed_2052 next_seed_965530093)
    ultimately show ?thesis
      using toFixed3_pos[of x]
      by (simp add: runSimulation_first baseSeed_def record_point_def step_challengeStressors p)
  qed
  ultimately show ?thesis by metis
qed
section \<open>The properties\<close>

text \<open>
  C1. For every seed that is not \<^verbatim>\<open>null\<close> two runs with the same parameters, horizon
  and seed return the same trajectory, from the generators seeded with the base seed and
  the base seed plus 1000, 1500, 2000 and 3000: this fails for the seed 0, which is
  replaced by a fresh random base seed, and the offsets fail for a seed around \<open>2 ^ 53\<close>,
  where the sum is rounded (the seed \<open>2 ^ 53 - 1\<close> gives the second generator the seed
  \<open>2 ^ 53 + 1000\<close>).

  What holds: for every seed other than 0 the trajectory does not depend on
  \<^verbatim>\<open>Math.random()\<close>; it is the loop started from the five generators seeded with
  the seed itself and with the sums of the seed and 1000, 1500, 2000 and 3000 as the
  doubles give them, which are the exact sums whenever the magnitude of the seed plus
  3000 is below \<open>2 ^ 53\<close>.
\<close>

theorem deterministic_for_nonzero_seed:
  assumes "seed \<noteq> 0"
  shows "runSimulation p finalTime (Some seed) random1 = runSimulation p finalTime (Some seed) random2 \<and>
         runSimulation p finalTime (Some seed) random1 = sim_loop p finalTime 0 (initial_state seed) [] \<and>
         rng0_advance (initial_state seed) = seed \<and>
         rng1_setback (initial_state seed) = round_to_double (seed + 1000) \<and>
         rng1_setbackPoisson (initial_state seed) = round_to_double (seed + 1500) \<and>
         rng2_challenge (initial_state seed) = round_to_double (seed + 2000) \<and>
         rng3_hindrance (initial_state seed) = round_to_double (seed + 3000) \<and>
         (\<bar>seed\<bar> + 3000 < 2 ^ 53 \<longrightarrow>
            rng1_setback (initial_state seed) = seed + 1000 \<and>
            rng1_setbackPoisson (initial_state seed) = seed + 1500 \<and>
            rng2_challenge (initial_state seed) = seed + 2000 \<and>
            rng3_hindrance (initial_state seed) = seed + 3000)"
  using assms by (simp add: runSimulation_def baseSeed_def initial_state_def round_to_double_small)

text \<open>The theorem at seed 42.\<close>

theorem deterministic_for_nonzero_seed_witness:
  "(42::int) \<noteq> 0 \<and> \<bar>42::int\<bar> + 3000 < 2 ^ 53 \<and>
   runSimulation default_params 500 (Some 42) 0 = runSimulation default_params 500 (Some 42) (1 / 2) \<and>
   rng0_advance (initial_state 42) = 42 \<and>
   rng1_setback (initial_state 42) = 1042 \<and>
   rng1_setbackPoisson (initial_state 42) = 1542 \<and>
   rng2_challenge (initial_state 42) = 2042 \<and>
   rng3_hindrance (initial_state 42) = 3042"
proof -
  have h: "(42::int) \<noteq> 0" by simp
  from deterministic_for_nonzero_seed[OF h, of default_params 500 0 "1 / 2"] show ?thesis
    by simp
qed

text \<open>
  Two runs with seed 0, the same parameters and the same horizon that differ; and the
  seed of the setback generator for the base seed \<open>2 ^ 53 - 1\<close>, which is not the base
  seed plus 1000.
\<close>

theorem seed_0_not_deterministic:
  "runSimulation default_params 500 (Some 0) (42 / 1000000)
     \<noteq> runSimulation default_params 500 (Some 0) (52 / 1000000) \<and>
   rng1_setback (initial_state 9007199254740991) \<noteq> 9007199254740991 + 1000"
  using seed_0_runs_differ by (simp add: setback_seed_rounded)




text \<open>
  C3. Every recorded motivation, strain and performance is at least 0: this fails. With
  ambition 0 and seed 2088216195 the first draw of the advance generator is 0, its
  logarithm is \<^verbatim>\<open>-Infinity\<close>, the normal variate is \<^verbatim>\<open>Infinity\<close>, multiplied by the
  standard deviation 0 it is \<^verbatim>\<open>NaN\<close>, and \<^verbatim>\<open>Math.max(0, NaN)\<close> is \<^verbatim>\<open>NaN\<close>: the
  performance recorded at period 0 is \<^verbatim>\<open>NaN\<close>, which is not at least 0. (The
  seed after that draw is 0 in exact arithmetic too: \<open>2088216195 * 1103515245 + 12345\<close>
  is a multiple of \<open>2 ^ 31\<close>.)
\<close>

theorem performance_NaN:
  "pt_performance (hd (runSimulation (default_params\<lparr>ambition := 0\<rparr>) 500 (Some 2088216195) random)) = NaN
   \<and> \<not> Num 0 \<le> pt_performance (hd (runSimulation (default_params\<lparr>ambition := 0\<rparr>) 500 (Some 2088216195) random))"
proof -
  let ?p = "default_params\<lparr>ambition := 0\<rparr>"
  have "fst (nextTruncatedNormal (Num 0) (Num 0) (Num 0) (Num 0) 2088216195) = NaN"
    by (simp add: nextTruncatedNormal_zero next_seed_2088216195)
  then have "advance (fst (period_step ?p 500 0 (initial_state 2088216195))) = NaN"
    by (simp add: step_advance initial_state_def default_params_def)
  then have "progress (snd (period_step ?p 500 0 (initial_state 2088216195))) = NaN"
    by (simp add: step_progress)
  then show ?thesis
    by (simp add: runSimulation_first baseSeed_def record_point_def)
qed

text \<open>
  C4. With seed 42, ambition, skill and self-regulation 0.5, dynamism 0.2, the default
  coefficients and horizon 500, the point recorded at period 0 has strain exactly 0, but
  its motivation is 0.5, not 0: the point is recorded after the stocks are updated, and
  the first update adds \<open>max(challenge, resources) * recovery * var1 = 0.5\<close> to the
  motivation (both stressor draws are clipped to 0, so recovery is 1).
\<close>

theorem first_point_seed_42:
  "period (hd (runSimulation default_params 500 (Some 42) random)) = 0 \<and>
   pt_motivation (hd (runSimulation default_params 500 (Some 42) random)) = Num (1 / 2) \<and>
   pt_strain (hd (runSimulation default_params 500 (Some 42) random)) = Num 0"
  using first_period_seed_42(1,2)[of "Some 1"]
  by (simp add: default_params_var8 runSimulation_first baseSeed_def record_point_def)

text \<open>The recorded motivation and strain of period 0 are not both 0.\<close>

theorem first_point_motivation_not_0:
  "\<not> (pt_motivation (hd (runSimulation default_params 500 (Some 42) 0)) = Num 0 \<and>
      pt_strain (hd (runSimulation default_params 500 (Some 42) 0)) = Num 0)"
  using first_period_seed_42(1)[of "Some 1"]
  by (simp add: default_params_var8 runSimulation_first baseSeed_def record_point_def)

text \<open>
  C5. \<^verbatim>\<open>next()\<close> sets the seed to \<open>(seed * 1103515245 + 12345) mod 2 ^ 31\<close>: this fails
  as soon as the product exceeds \<open>2 ^ 53\<close>, because it is computed in double precision
  and loses its low bits before the mask is applied. From seed 42 the first call gives
  1250496027, as the formula does; the second call gives 1116302080, where the formula
  gives 1116302264. The value returned is the new seed divided by 2147483647, and it
  does lie in the interval from 0 to 1, 1 excluded (\<open>SeededRandom_next_range\<close>).
\<close>

theorem next_seed_loses_low_bits:
  "next_seed 42 = 1250496027 \<and>
   next_seed 1250496027 = 1116302080 \<and>
   (1250496027 * 1103515245 + 12345) mod 2 ^ 31 = (1116302264 :: int) \<and>
   SeededRandom_next 1250496027 = (Num (1116302080 / 2147483647), 1116302080)"
  by (simp add: next_seed_42 next_seed_1250496027 SeededRandom_next_eq)

text \<open>
  C6. A horizon or a run count that is not positive is rejected with an invalid-argument
  signal: this fails, nothing validates the arguments. With horizon 0 a run returns a
  point for period 0, and with horizon -1 it returns the empty trajectory.

  What holds: \<^verbatim>\<open>runSimulation\<close> always returns a trajectory, empty exactly when the
  horizon is negative; with horizon 0 it has one point, whose motivation and strain are
  \<^verbatim>\<open>NaN\<close> (\<^verbatim>\<open>0 / 0\<close>). \<^verbatim>\<open>runMultipleSimulations\<close> returns the empty list when the
  run count is not positive, throws a \<^verbatim>\<open>TypeError\<close> when the run count is positive
  and the horizon negative (it reads a field of the last point of an empty trajectory),
  and returns one summary per run otherwise.
\<close>

theorem no_argument_validation:
  "(runSimulation p finalTime seed random = [] \<longleftrightarrow> finalTime < 0) \<and>
   length (runSimulation p 0 seed random) = 1 \<and>
   pt_motivation (hd (runSimulation p 0 seed random)) = NaN \<and>
   pt_strain (hd (runSimulation p 0 seed random)) = NaN \<and>
   runMultipleSimulations p numRuns finalTime randoms =
     (if numRuns \<le> 0 then Inr []
      else if finalTime < 0 then Inl TypeError
      else Inr (map (\<lambda>i. summary_of i (runSimulation p finalTime None (randoms i))) [0..numRuns - 1]))"
proof -
  have "length (runSimulation p 0 seed random) = 1"
    by (simp add: runSimulation_trace sim_trace_first sim_trace_empty sampled_def split_def)
  moreover have "runMultipleSimulations p numRuns finalTime randoms = Inr []" if "numRuns \<le> 0"
    unfolding runMultipleSimulations_def using that by (subst runs_loop.simps) simp
  moreover have "runMultipleSimulations p numRuns finalTime randoms = Inl TypeError"
    if "0 < numRuns" "finalTime < 0"
    unfolding runMultipleSimulations_def using that by (simp add: runs_loop_TypeError)
  moreover have "runMultipleSimulations p numRuns finalTime randoms =
      Inr (map (\<lambda>i. summary_of i (runSimulation p finalTime None (randoms i))) [0..numRuns - 1])"
    if "0 \<le> finalTime"
    unfolding runMultipleSimulations_def using that by (simp add: runs_loop_summaries)
  ultimately show ?thesis
    by (simp add: runSimulation_empty_iff runSimulation_first record_point_def horizon_0_first_period)
qed

text \<open>Runs with the horizons 0 and -1 return, the first one with a point.\<close>

theorem horizon_0_returns_a_point:
  "runSimulation default_params 0 (Some 42) 0 \<noteq> [] \<and>
   period (hd (runSimulation default_params 0 (Some 42) 0)) = 0 \<and>
   runSimulation default_params (- 1) (Some 42) 0 = []"
  by (simp add: runSimulation_empty_iff runSimulation_first record_point_def)

text \<open>
  C7. With ambition 0, in every period (whatever the state at its start)
  \<open>challengeStressors\<close>, \<open>hindranceStressors\<close> and \<open>strainIncrease\<close> are 0 and \<open>recovery\<close>
  is 1, and the seeds of the challenge and hindrance generators are the same after the
  period as before it: no draw is taken from them. Hence every recorded point of every
  run has challenge and hindrance stressors 0 and recovery 1.
\<close>

theorem zero_ambition_degeneracy:
  assumes "ambition p = 0"
  shows "challengeStressors (fst (period_step p finalTime time st)) = Num 0 \<and>
         hindranceStressors (fst (period_step p finalTime time st)) = Num 0 \<and>
         strainIncrease (fst (period_step p finalTime time st)) = Num 0 \<and>
         recovery (fst (period_step p finalTime time st)) = Num 1 \<and>
         rng2_challenge (snd (period_step p finalTime time st)) = rng2_challenge st \<and>
         rng3_hindrance (snd (period_step p finalTime time st)) = rng3_hindrance st \<and>
         (\<forall>pt \<in> set (runSimulation p finalTime seed random).
            pt_challengeStressors pt = Num 0 \<and> pt_hindranceStressors pt = Num 0 \<and>
            pt_recovery pt = Num 1)"
proof -
  have "pt_challengeStressors pt = Num 0 \<and> pt_hindranceStressors pt = Num 0 \<and> pt_recovery pt = Num 1"
    if "pt \<in> set (runSimulation p finalTime seed random)" for pt
  proof -
    from that obtain t st0 v st1 where
      mem: "(t, st0, v, st1) \<in> set (run_periods p finalTime seed random)"
      and pt: "pt = record_point t v st1"
      unfolding runSimulation_periods by (blast dest: sampled_mem)
    have "v = fst (period_step p finalTime t st0)"
      using run_periods_entries[OF mem] by simp
    then show ?thesis
      using period_step_zero_ambition[OF assms, of finalTime t st0]
      by (simp add: pt record_point_def)
  qed
  then show ?thesis
    using period_step_zero_ambition[OF assms, of finalTime time st] by blast
qed

text \<open>The theorem at the first period of the run with ambition 0 and seed 42.\<close>

theorem zero_ambition_degeneracy_witness:
  "ambition (default_params\<lparr>ambition := 0\<rparr>) = 0 \<and>
   challengeStressors (fst (period_step (default_params\<lparr>ambition := 0\<rparr>) 500 0 (initial_state 42))) = Num 0 \<and>
   hindranceStressors (fst (period_step (default_params\<lparr>ambition := 0\<rparr>) 500 0 (initial_state 42))) = Num 0 \<and>
   strainIncrease (fst (period_step (default_params\<lparr>ambition := 0\<rparr>) 500 0 (initial_state 42))) = Num 0 \<and>
   recovery (fst (period_step (default_params\<lparr>ambition := 0\<rparr>) 500 0 (initial_state 42))) = Num 1 \<and>
   rng2_challenge (snd (period_step (default_params\<lparr>ambition := 0\<rparr>) 500 0 (initial_state 42))) = 2042 \<and>
   rng3_hindrance (snd (period_step (default_params\<lparr>ambition := 0\<rparr>) 500 0 (initial_state 42))) = 3042"
proof -
  have a: "ambition (default_params\<lparr>ambition := 0\<rparr>) = 0" by simp
  have "rng2_challenge (initial_state 42) = 2042" "rng3_hindrance (initial_state 42) = 3042"
    by (simp_all add: initial_state_def round_to_double_small)
  with zero_ambition_degeneracy[OF a, of 500 0 "initial_state 42" "Some 42" 0] a
  show ?thesis by simp
qed

text \<open>
  C8. For every parameters and seed, a run over the horizon 500 returns exactly 101
  points, with the periods 0, 5, 10, ..., 500 in this order: the loop goes through the
  times 0 to the horizon inclusive and records a point exactly at the times divisible
  by 5, for any horizon. The points of the trajectory are, in order, those of the periods
  whose time is divisible by 5, and each carries the time of its period and, rounded to
  three decimals, the stocks after the update of that period and the values computed in
  it.
\<close>

theorem sampling_cadence:
  "map period (runSimulation p finalTime seed random) = filter (\<lambda>t. t mod 5 = 0) [0..finalTime] \<and>
   map period (runSimulation p 500 seed random) = map (\<lambda>k. 5 * k) [0..100] \<and>
   length (runSimulation p 500 seed random) = 101 \<and>
   list_all2 records_period (runSimulation p finalTime seed random)
     (filter (\<lambda>(time, st, v, st'). time mod 5 = 0) (run_periods p finalTime seed random))"
proof -
  have periods: "map period (runSimulation p T seed random) = filter (\<lambda>t. t mod 5 = 0) [0..T]" for T
    by (simp add: runSimulation_trace sampled_periods sim_trace_times)
  have "length (map period (runSimulation p 500 seed random)) = 101"
    unfolding periods every_fifth_500 by simp
  then have "length (runSimulation p 500 seed random) = 101" by simp
  then show ?thesis
    using periods[of finalTime] periods[of 500]
    by (simp add: every_fifth_500 runSimulation_periods sampled_records)
qed

text \<open>
  C10. A seed 0 is treated as no seed: the run with seed 0 is the run with seed
  \<^verbatim>\<open>null\<close>, its base seed is \<^verbatim>\<open>Math.floor(Math.random() * 1000000)\<close>, and two runs
  with seed 0 and the same parameters can return different trajectories.
\<close>

theorem seed_0_is_no_seed:
  "runSimulation p finalTime (Some 0) random = runSimulation p finalTime None random \<and>
   baseSeed (Some 0) random = \<lfloor>random * 1000000\<rfloor> \<and>
   runSimulation default_params 500 (Some 0) (42 / 1000000)
     \<noteq> runSimulation default_params 500 (Some 0) (52 / 1000000)"
  using seed_0_runs_differ by (simp add: runSimulation_def baseSeed_def)

end
